theory Spec2Isabelle
  imports Main "HOL-Library.Word" "HOL-Library.Monad_Syntax"
begin

section \<open>The program \<open>test_project/main.c\<close>\<close>

text \<open>
  The whole program is one function:
  \<^verbatim>\<open>
  int main() {
      printf("Starting the main application.\n");
      print_greeting(); // Call a function from my_lib
      int answer = get_answer();
      printf("The retrieved answer is: %d\n", answer);
      return 0;
  }
  \<close>
  It is embedded with explicit state passing. The state is the running process: what
  has been written to standard output, the command line and environment it was started
  with, and the state of the linked library. A call that does not return is the value
  \<open>None\<close>.
\<close>

subsection \<open>C integers and their decimal text\<close>

text \<open>
  \<open>int\<close> is taken as 32 bits wide, two's complement; \<open>sint\<close> reads the signed value.
\<close>

type_synonym c_int = "32 word"

text \<open>
  What the conversion \<open>%d\<close> writes for a value: its decimal digits, most significant
  first, with no leading zeros, and a minus sign in front of a negative value.
\<close>

definition digit :: "nat \<Rightarrow> char" where
  "digit d = ''0123456789'' ! d"

fun show_nat :: "nat \<Rightarrow> string" where
  "show_nat n = (if n < 10 then [digit n] else show_nat (n div 10) @ [digit (n mod 10)])"

declare show_nat.simps [simp del]

definition show_int :: "int \<Rightarrow> string" where
  "show_int i = (if i < 0 then CHR ''-'' # show_nat (nat (- i)) else show_nat (nat i))"

text \<open>
  Reading decimal text back, used to say that \<open>show_int\<close> is a decimal representation
  of the value: the digits are weighted by powers of ten, a leading minus sign negates.
\<close>

definition digit_val :: "char \<Rightarrow> nat" where
  "digit_val c = of_char c - 48"

definition read_nat :: "string \<Rightarrow> nat" where
  "read_nat s = foldl (\<lambda>acc c. acc * 10 + digit_val c) 0 s"

definition read_int :: "string \<Rightarrow> int" where
  "read_int s = (case s of
       [] \<Rightarrow> 0
     | c # cs \<Rightarrow> if c = CHR ''-'' then - int (read_nat cs) else int (read_nat s))"

text \<open>
  \<open>printf\<close>'s formatting, for the directives this program uses: \<open>%d\<close> takes the next
  argument and writes it in decimal, every other character is copied. A \<open>%d\<close> with no
  argument left is undefined in C; the model copies it, and \<open>main\<close> never does that.
\<close>

fun format :: "string \<Rightarrow> c_int list \<Rightarrow> string" where
  "format [] args = []"
| "format [c] args = [c]"
| "format (c # d # fmt) args =
     (if c = CHR ''%'' \<and> d = CHR ''d''
      then (case args of
              [] \<Rightarrow> c # d # format fmt []
            | a # rest \<Rightarrow> show_int (sint a) @ format fmt rest)
      else c # format (d # fmt) args)"

subsection \<open>The running process\<close>

text \<open>
  \<open>op\<close> names the operations \<open>main\<close> can perform: a call of \<open>printf\<close> with its
  format and arguments, a call of \<open>print_greeting\<close>, a call of \<open>get_answer\<close> with the
  value it returned.
\<close>

datatype op = Printf string "c_int list" | Print_greeting | Get_answer c_int

text \<open>
  The process: the command line and the environment it was started with, the bytes
  written to standard output so far (oldest first), and the state of the linked
  library, of which \<open>main\<close> knows nothing. \<open>ops\<close> is the history of the operations
  \<open>main\<close> has performed, oldest first; the C program has no such variable, it is the
  model's record of what was executed, so that number and order of the steps can be
  stated.
\<close>

record 'x process =
  argv :: "string list"
  environ :: "string list"
  stdout :: string
  ops :: "op list"
  lib_state :: 'x

text \<open>
  Modelled from the spec: \<open>my_lib.h\<close> and the library behind it are not part of the
  sources; section 6 of the specification gives the linkage contract, "a no-argument
  procedure that produces some observable greeting output" and "a no-argument function
  returning an integer answer value". The library is therefore a parameter.
  \<open>print_greeting_body\<close> is what \<open>print_greeting\<close> does: from the library's state, the
  bytes it writes to standard output and the library's new state. \<open>get_answer_body\<close> is
  what \<open>get_answer\<close> does: the integer it returns and the library's new state; following
  the contract it writes nothing. Either is \<open>None\<close> when the call does not return (it
  loops, or ends the process).
\<close>

record 'x my_lib =
  print_greeting_body :: "'x \<Rightarrow> (string \<times> 'x) option"
  get_answer_body :: "'x \<Rightarrow> (c_int \<times> 'x) option"

text \<open>
  \<open>printf\<close> appends the formatted text to standard output and returns the number of
  bytes written. Standard output is taken to accept every write.
\<close>

definition printf :: "string \<Rightarrow> c_int list \<Rightarrow> 'x process \<Rightarrow> c_int \<times> 'x process" where
  "printf fmt args p =
     (let text = format fmt args
      in (of_nat (length text),
          p\<lparr>stdout := stdout p @ text, ops := ops p @ [Printf fmt args]\<rparr>))"

text \<open>The two library calls, as \<open>main\<close> makes them.\<close>

definition print_greeting :: "'x my_lib \<Rightarrow> 'x process \<Rightarrow> 'x process option" where
  "print_greeting lib p =
     (case print_greeting_body lib (lib_state p) of
        None \<Rightarrow> None
      | Some (out, x) \<Rightarrow>
          Some (p\<lparr>stdout := stdout p @ out, ops := ops p @ [Print_greeting],
                  lib_state := x\<rparr>))"

definition get_answer :: "'x my_lib \<Rightarrow> 'x process \<Rightarrow> (c_int \<times> 'x process) option" where
  "get_answer lib p =
     (case get_answer_body lib (lib_state p) of
        None \<Rightarrow> None
      | Some (n, x) \<Rightarrow> Some (n, p\<lparr>ops := ops p @ [Get_answer n], lib_state := x\<rparr>))"

subsection \<open>\<open>main\<close>\<close>

text \<open>
  The result is the value \<open>main\<close> returns, which is the exit code of the process, with
  the final process; \<open>None\<close> when \<open>main\<close> does not return. The results of the two
  \<open>printf\<close> calls are dropped, as in the source.
\<close>

definition main :: "'x my_lib \<Rightarrow> 'x process \<Rightarrow> (c_int \<times> 'x process) option" where
  "main lib p0 = do {
     let (_, p1) = printf ''Starting the main application.\<newline>'' [] p0;
     p2 \<leftarrow> print_greeting lib p1;
     (answer, p3) \<leftarrow> get_answer lib p2;
     let (_, p4) = printf ''The retrieved answer is: %d\<newline>'' [answer] p3;
     Some (0, p4)
   }"

text \<open>
  The process at the start of a run: started with any command line and environment,
  nothing written and nothing executed yet.
\<close>

definition start :: "string list \<Rightarrow> string list \<Rightarrow> 'x \<Rightarrow> 'x process" where
  "start args env x = \<lparr>argv = args, environ = env, stdout = [], ops = [], lib_state = x\<rparr>"

text \<open>
  What is observed of a run in which \<open>main\<close> returns: the exit code and standard
  output. Of a run in which it does not return the model keeps nothing.
\<close>

definition observe :: "(c_int \<times> 'x process) option \<Rightarrow> (c_int \<times> string) option" where
  "observe r = map_option (\<lambda>(rc, q). (rc, stdout q)) r"

text \<open>
  The library of the specification's example, "an external library that defines the
  answer as 42", with the greeting text \<open>g\<close> and the answer \<open>n\<close> as parameters:
  \<open>print_greeting\<close> writes \<open>g\<close>, \<open>get_answer\<close> returns \<open>n\<close>, and the library has no
  state of its own.
\<close>

definition example_lib :: "string \<Rightarrow> c_int \<Rightarrow> unit my_lib" where
  "example_lib g n =
     \<lparr>print_greeting_body = (\<lambda>x. Some (g, x)), get_answer_body = (\<lambda>x. Some (n, x))\<rparr>"

section \<open>Decimal text\<close>

lemma below_ten:
  "d < (10::nat) \<Longrightarrow>
   d = 0 \<or> d = 1 \<or> d = 2 \<or> d = 3 \<or> d = 4 \<or> d = 5 \<or> d = 6 \<or> d = 7 \<or> d = 8 \<or> d = 9"
  by arith

lemma digit_val_digit: "d < 10 \<Longrightarrow> digit_val (digit d) = d"
  using below_ten [of d] by (auto simp add: digit_def digit_val_def)

lemma digit_not_minus: "d < 10 \<Longrightarrow> digit d \<noteq> CHR ''-''"
  using below_ten [of d] by (auto simp add: digit_def)

lemma read_nat_snoc: "read_nat (s @ [c]) = read_nat s * 10 + digit_val c"
  by (simp add: read_nat_def)

text \<open>Reading the digits of a number gives the number back.\<close>

lemma read_nat_show_nat: "read_nat (show_nat n) = n"
proof (induction n rule: show_nat.induct)
  case (1 n)
  show ?case
  proof (cases "n < 10")
    case True
    then show ?thesis
      by (simp add: show_nat.simps [of n] read_nat_def digit_val_digit)
  next
    case False
    with "1" have "read_nat (show_nat (n div 10)) = n div 10" by simp
    with False show ?thesis
      by (simp add: show_nat.simps [of n] read_nat_snoc digit_val_digit)
  qed
qed

text \<open>The text of a natural number starts with a digit, so never with a minus sign.\<close>

lemma show_nat_first: "\<exists>d cs. d < 10 \<and> show_nat n = digit d # cs"
proof (induction n rule: show_nat.induct)
  case (1 n)
  show ?case
  proof (cases "n < 10")
    case True
    then show ?thesis
      by (auto simp add: show_nat.simps [of n])
  next
    case False
    with "1" obtain d cs where "d < 10" "show_nat (n div 10) = digit d # cs" by auto
    with False show ?thesis
      by (auto simp add: show_nat.simps [of n])
  qed
qed

lemma read_int_show_int: "read_int (show_int i) = i"
proof (cases "i < 0")
  case True
  then show ?thesis
    by (simp add: show_int_def read_int_def read_nat_show_nat)
next
  case False
  obtain d cs where d: "d < 10" "show_nat (nat i) = digit d # cs"
    using show_nat_first by blast
  have "read_nat (digit d # cs) = nat i"
    using read_nat_show_nat [of "nat i"] d by simp
  with False d show ?thesis
    by (simp add: show_int_def read_int_def digit_not_minus)
qed

lemma show_int_42: "show_int 42 = ''42''"
  by (simp add: show_int_def show_nat.simps digit_def)

section \<open>What \<open>main\<close> computes\<close>

text \<open>
  When both library calls return, \<open>main\<close> returns 0 and the final process is the
  initial one with standard output, the history and the library's state updated.
\<close>

lemma main_returns:
  assumes "print_greeting_body lib (lib_state p) = Some (g, x1)" and "get_answer_body lib x1 = Some (n, x2)"
  shows "main lib p = Some (0, p\<lparr>
           stdout := stdout p @ ''Starting the main application.\<newline>'' @ g @
                     ''The retrieved answer is: '' @ show_int (sint n) @ ''\<newline>'',
           ops := ops p @ [Printf ''Starting the main application.\<newline>'' [], Print_greeting,
                           Get_answer n, Printf ''The retrieved answer is: %d\<newline>'' [n]],
           lib_state := x2\<rparr>)"
  using assms
  by (simp add: main_def printf_def print_greeting_def get_answer_def Let_def)

text \<open>\<open>main\<close> returns only when both library calls returned.\<close>

lemma main_SomeD:
  assumes "main lib p = Some r"
  shows "\<exists>g x1 n x2. print_greeting_body lib (lib_state p) = Some (g, x1) \<and> get_answer_body lib x1 = Some (n, x2)"
proof (cases "print_greeting_body lib (lib_state p)")
  case None
  with assms show ?thesis
    by (simp add: main_def printf_def print_greeting_def Let_def)
next
  case (Some a)
  obtain g x1 where a: "a = (g, x1)" by (cases a)
  show ?thesis
  proof (cases "get_answer_body lib x1")
    case None
    with assms Some a show ?thesis
      by (simp add: main_def printf_def print_greeting_def get_answer_def Let_def)
  next
    case (Some b)
    obtain n x2 where "b = (n, x2)" by (cases b)
    with Some \<open>print_greeting_body lib (lib_state p) = Some a\<close> a show ?thesis by simp
  qed
qed

text \<open>
  The same, read field by field: what was appended to standard output, what was added
  to the history, what became of the library's state, and that nothing else of the
  process changed.
\<close>

lemma main_effect:
  assumes "print_greeting_body lib (lib_state p) = Some (g, x1)"
    and "get_answer_body lib x1 = Some (n, x2)"
  obtains q where "main lib p = Some (0, q)"
    and "stdout q = stdout p @ ''Starting the main application.\<newline>'' @ g @
                    ''The retrieved answer is: '' @ show_int (sint n) @ ''\<newline>''"
    and "ops q = ops p @ [Printf ''Starting the main application.\<newline>'' [], Print_greeting,
                          Get_answer n, Printf ''The retrieved answer is: %d\<newline>'' [n]]"
    and "lib_state q = x2"
    and "q = p\<lparr>stdout := stdout q, ops := ops q, lib_state := lib_state q\<rparr>"
proof -
  let ?q = "p\<lparr>
           stdout := stdout p @ ''Starting the main application.\<newline>'' @ g @
                     ''The retrieved answer is: '' @ show_int (sint n) @ ''\<newline>'',
           ops := ops p @ [Printf ''Starting the main application.\<newline>'' [], Print_greeting,
                           Get_answer n, Printf ''The retrieved answer is: %d\<newline>'' [n]],
           lib_state := x2\<rparr>"
  have "main lib p = Some (0, ?q)"
    using assms by (rule main_returns)
  moreover have "stdout ?q = stdout p @ ''Starting the main application.\<newline>'' @ g @
                    ''The retrieved answer is: '' @ show_int (sint n) @ ''\<newline>''"
    by simp
  moreover have "ops ?q = ops p @ [Printf ''Starting the main application.\<newline>'' [],
                   Print_greeting, Get_answer n,
                   Printf ''The retrieved answer is: %d\<newline>'' [n]]"
    by simp
  moreover have "lib_state ?q = x2"
    by simp
  moreover have "?q = p\<lparr>stdout := stdout ?q, ops := ops ?q, lib_state := lib_state ?q\<rparr>"
    by simp
  ultimately show thesis
    by (rule that)
qed

text \<open>When a library call does not return, neither does \<open>main\<close>.\<close>

lemma main_greeting_None:
  "print_greeting_body lib (lib_state p) = None \<Longrightarrow> main lib p = None"
  by (simp add: main_def printf_def print_greeting_def Let_def)

lemma main_answer_None:
  "print_greeting_body lib (lib_state p) = Some (g, x1) \<Longrightarrow> get_answer_body lib x1 = None
   \<Longrightarrow> main lib p = None"
  by (simp add: main_def printf_def print_greeting_def get_answer_def Let_def)

section \<open>The claims\<close>

text \<open>
  C1. For every integer \<open>n\<close> that \<open>get_answer\<close> returns and every output \<open>g\<close> that
  \<open>print_greeting\<close> produces, a run of the program, started with any command line and
  environment, returns 0 and leaves on standard output exactly the line
  "Starting the main application.", then \<open>g\<close>, then the line "The retrieved answer is: "
  followed by \<open>n\<close> in decimal, in that order. In particular, when the answer is 42 the
  last line is "The retrieved answer is: 42".
\<close>

theorem program_output:
  assumes "print_greeting_body lib x = Some (g, x1)" and "get_answer_body lib x1 = Some (n, x2)"
  shows "\<exists>q. main lib (start args env x) = Some (0, q) \<and>
             stdout q = ''Starting the main application.\<newline>'' @ g @
                        ''The retrieved answer is: '' @ show_int (sint n) @ ''\<newline>'' \<and>
             (n = 42 \<longrightarrow> stdout q = ''Starting the main application.\<newline>'' @ g @
                                   ''The retrieved answer is: 42\<newline>'')"
proof -
  from assms have "print_greeting_body lib (lib_state (start args env x)) = Some (g, x1)"
    by (simp add: start_def)
  then obtain q where q: "main lib (start args env x) = Some (0, q)"
     "stdout q = stdout (start args env x) @ ''Starting the main application.\<newline>'' @ g @
                    ''The retrieved answer is: '' @ show_int (sint n) @ ''\<newline>''"
    using assms(2) by (rule main_effect)
  have "stdout (start args env x) = []"
    by (simp add: start_def)
  with q have "stdout q = ''Starting the main application.\<newline>'' @ g @
                    ''The retrieved answer is: '' @ show_int (sint n) @ ''\<newline>''"
    by simp
  moreover from this have "n = 42 \<longrightarrow> stdout q = ''Starting the main application.\<newline>'' @ g @
                                   ''The retrieved answer is: 42\<newline>''"
    by (simp add: show_int_42)
  ultimately show ?thesis
    using q(1) by blast
qed

text \<open>
  The specification's example: with a library that greets with "Hello from my_lib!"
  and defines the answer as 42, the run prints the three lines.
\<close>

theorem program_output_witness:
  "print_greeting_body (example_lib ''Hello from my_lib!\<newline>'' 42) ()
     = Some (''Hello from my_lib!\<newline>'', ())
   \<and> get_answer_body (example_lib ''Hello from my_lib!\<newline>'' 42) () = Some (42, ())
   \<and> (\<exists>q. main (example_lib ''Hello from my_lib!\<newline>'' 42) (start [''main''] [] ())
             = Some (0, q) \<and>
           stdout q = ''Starting the main application.\<newline>Hello from my_lib!\<newline>The retrieved answer is: 42\<newline>'')"
proof -
  have a: "print_greeting_body (example_lib ''Hello from my_lib!\<newline>'' 42) ()
             = Some (''Hello from my_lib!\<newline>'', ())"
    by (simp add: example_lib_def)
  have b: "get_answer_body (example_lib ''Hello from my_lib!\<newline>'' 42) () = Some (42, ())"
    by (simp add: example_lib_def)
  show ?thesis
    using a b program_output [OF a b, of "[''main'']" "[]"] by auto
qed

text \<open>
  C2. \<open>main\<close> has no error branch. Whenever it returns, it returns 0; and for every
  output \<open>g\<close> that \<open>print_greeting\<close> produces and every integer \<open>n\<close> that \<open>get_answer\<close>
  returns, execution reaches the \<open>return\<close> statement and the exit code is 0.
\<close>

theorem main_exit_code:
  "(\<forall>rc q. main lib p = Some (rc, q) \<longrightarrow> rc = 0) \<and>
   (\<forall>g x1 n x2. print_greeting_body lib (lib_state p) = Some (g, x1) \<and>
                  get_answer_body lib x1 = Some (n, x2)
      \<longrightarrow> (\<exists>q. main lib p = Some (0, q)))"
proof (intro conjI allI impI)
  fix rc q
  assume r: "main lib p = Some (rc, q)"
  then obtain g y1 n y2 where
    "print_greeting_body lib (lib_state p) = Some (g, y1)" "get_answer_body lib y1 = Some (n, y2)"
    using main_SomeD by blast
  then have "\<exists>q'. main lib p = Some (0, q')"
    by (simp add: main_returns)
  with r show "rc = 0" by auto
next
  fix g x1 n x2
  assume "print_greeting_body lib (lib_state p) = Some (g, x1) \<and>
          get_answer_body lib x1 = Some (n, x2)"
  then show "\<exists>q. main lib p = Some (0, q)"
    by (simp add: main_returns)
qed

text \<open>With the example library both calls return, and the run ends with exit code 0.\<close>

theorem main_exit_code_witness:
  "print_greeting_body (example_lib ''Hi\<newline>'' 42) (lib_state (start [] [] ()))
     = Some (''Hi\<newline>'', ())
   \<and> get_answer_body (example_lib ''Hi\<newline>'' 42) () = Some (42, ())
   \<and> (\<exists>rc q. main (example_lib ''Hi\<newline>'' 42) (start [] [] ()) = Some (rc, q) \<and> rc = 0)"
proof -
  have a: "print_greeting_body (example_lib ''Hi\<newline>'' 42) (lib_state (start [] [] ()))
             = Some (''Hi\<newline>'', ())"
    by (simp add: example_lib_def)
  have b: "get_answer_body (example_lib ''Hi\<newline>'' 42) () = Some (42, ())"
    by (simp add: example_lib_def)
  from a b main_exit_code [of "example_lib ''Hi\<newline>'' 42" "start [] [] ()"]
  show ?thesis by blast
qed

text \<open>
  C3. The steps of \<open>main\<close>, as the history records them, are exactly these four, each
  once and in this order: \<open>printf\<close> of the fixed string, the call of \<open>print_greeting\<close>,
  the call of \<open>get_answer\<close>, \<open>printf\<close> of the fixed format with the returned integer as
  its only argument; then \<open>main\<close> returns 0. Nothing else is added to the history.
\<close>

theorem main_steps:
  assumes "print_greeting_body lib (lib_state p) = Some (g, x1)"
    and "get_answer_body lib x1 = Some (n, x2)"
  shows "\<exists>q. main lib p = Some (0, q) \<and>
             ops q = ops p @ [Printf ''Starting the main application.\<newline>'' [], Print_greeting,
                              Get_answer n, Printf ''The retrieved answer is: %d\<newline>'' [n]]"
proof -
  obtain q where "main lib p = Some (0, q)"
    and "ops q = ops p @ [Printf ''Starting the main application.\<newline>'' [], Print_greeting,
                          Get_answer n, Printf ''The retrieved answer is: %d\<newline>'' [n]]"
    using assms by (rule main_effect)
  then show ?thesis by blast
qed

text \<open>A run from the start with the example library: the history is the four steps.\<close>

theorem main_steps_witness:
  "print_greeting_body (example_lib ''Hi\<newline>'' 42) (lib_state (start [] [] ()))
     = Some (''Hi\<newline>'', ())
   \<and> get_answer_body (example_lib ''Hi\<newline>'' 42) () = Some (42, ())
   \<and> (\<exists>q. main (example_lib ''Hi\<newline>'' 42) (start [] [] ()) = Some (0, q) \<and>
         ops q = [Printf ''Starting the main application.\<newline>'' [], Print_greeting,
                  Get_answer 42, Printf ''The retrieved answer is: %d\<newline>'' [42]])"
proof -
  have a: "print_greeting_body (example_lib ''Hi\<newline>'' 42) (lib_state (start [] [] ()))
             = Some (''Hi\<newline>'', ())"
    by (simp add: example_lib_def)
  have b: "get_answer_body (example_lib ''Hi\<newline>'' 42) () = Some (42, ())"
    by (simp add: example_lib_def)
  have c: "ops (start [] [] ()) = []"
    by (simp add: start_def)
  from a b c main_steps [OF a b]
  show ?thesis by simp
qed

text \<open>
  C4. Two runs in which the library behaves identically (\<open>print_greeting\<close> returns in
  both or in neither, with the same output, and then \<open>get_answer\<close> returns in both or in
  neither, with the same integer) cannot be told apart by exit code and standard output,
  whatever command line and environment each run was started with.
\<close>

theorem args_env_independence:
  assumes g: "map_option fst (print_greeting_body lib1 x) = map_option fst (print_greeting_body lib2 y)"
    and a: "\<And>g x1 y1. print_greeting_body lib1 x = Some (g, x1) \<Longrightarrow>
                      print_greeting_body lib2 y = Some (g, y1) \<Longrightarrow>
              map_option fst (get_answer_body lib1 x1) = map_option fst (get_answer_body lib2 y1)"
  shows "observe (main lib1 (start args1 env1 x)) = observe (main lib2 (start args2 env2 y))"
proof (cases "print_greeting_body lib1 x")
  case None
  with g have "print_greeting_body lib2 y = None" by simp
  with None show ?thesis
    by (simp add: main_greeting_None start_def observe_def)
next
  case (Some r)
  obtain gt x1 where r: "r = (gt, x1)" by (cases r)
  with Some g obtain y1 where g2: "print_greeting_body lib2 y = Some (gt, y1)"
    by (cases "print_greeting_body lib2 y") auto
  from Some r have g1: "print_greeting_body lib1 x = Some (gt, x1)" by simp
  have eq: "map_option fst (get_answer_body lib1 x1) = map_option fst (get_answer_body lib2 y1)"
    using g1 g2 by (rule a)
  have s1: "lib_state (start args1 env1 x) = x" "stdout (start args1 env1 x) = []"
    by (simp_all add: start_def)
  have s2: "lib_state (start args2 env2 y) = y" "stdout (start args2 env2 y) = []"
    by (simp_all add: start_def)
  show ?thesis
  proof (cases "get_answer_body lib1 x1")
    case None
    with eq have "get_answer_body lib2 y1 = None" by simp
    with None g1 g2 s1 s2 show ?thesis
      by (simp add: main_answer_None [where ?x1.0 = x1] main_answer_None [where ?x1.0 = y1]
          observe_def)
  next
    case (Some t)
    obtain n x2 where t: "t = (n, x2)" by (cases t)
    with Some eq obtain y2 where a2: "get_answer_body lib2 y1 = Some (n, y2)"
      by (cases "get_answer_body lib2 y1") auto
    from Some t have a1: "get_answer_body lib1 x1 = Some (n, x2)" by simp
    from g1 a1 s1 have "observe (main lib1 (start args1 env1 x))
        = Some (0, ''Starting the main application.\<newline>'' @ gt @
                     ''The retrieved answer is: '' @ show_int (sint n) @ ''\<newline>'')"
      by (simp add: main_returns observe_def)
    moreover from g2 a2 s2 have "observe (main lib2 (start args2 env2 y))
        = Some (0, ''Starting the main application.\<newline>'' @ gt @
                     ''The retrieved answer is: '' @ show_int (sint n) @ ''\<newline>'')"
      by (simp add: main_returns observe_def)
    ultimately show ?thesis by simp
  qed
qed

text \<open>
  The example library, once started with arguments and an environment variable and once
  with neither: the same three lines and exit code 0.
\<close>

theorem args_env_independence_witness:
  "map_option fst (print_greeting_body (example_lib ''Hi\<newline>'' 42) ()) = Some ''Hi\<newline>''
   \<and> map_option fst (get_answer_body (example_lib ''Hi\<newline>'' 42) ()) = Some 42
   \<and> observe (main (example_lib ''Hi\<newline>'' 42)
                (start [''main'', ''--verbose''] [''HOME=/root''] ()))
     = observe (main (example_lib ''Hi\<newline>'' 42) (start [] [] ()))
   \<and> observe (main (example_lib ''Hi\<newline>'' 42) (start [] [] ()))
     = Some (0, ''Starting the main application.\<newline>Hi\<newline>The retrieved answer is: 42\<newline>'')"
proof -
  have "observe (main (example_lib ''Hi\<newline>'' 42)
                  (start [''main'', ''--verbose''] [''HOME=/root''] ()))
     = observe (main (example_lib ''Hi\<newline>'' 42) (start [] [] ()))"
    by (rule args_env_independence) (simp_all add: example_lib_def)
  moreover have "observe (main (example_lib ''Hi\<newline>'' 42) (start [] [] ()))
     = Some (0, ''Starting the main application.\<newline>Hi\<newline>The retrieved answer is: 42\<newline>'')"
    by (simp add: main_returns [where g = "''Hi\<newline>''" and n = 42 and ?x1.0 = "()" and ?x2.0 = "()"]
        example_lib_def start_def observe_def show_int_42)
  moreover have "map_option fst (print_greeting_body (example_lib ''Hi\<newline>'' 42) ())
                   = Some ''Hi\<newline>''"
    by (simp add: example_lib_def)
  moreover have "map_option fst (get_answer_body (example_lib ''Hi\<newline>'' 42) ()) = Some 42"
    by (simp add: example_lib_def)
  ultimately show ?thesis by simp
qed

text \<open>
  C5. The frame of \<open>main\<close>. The final process is the initial one except for standard
  output, the history and the library's state. The library's state is the one its own two
  calls left, \<open>main\<close> adds nothing to it and stores \<open>n\<close> nowhere; command line and
  environment are untouched. All that was appended to standard output is the fixed
  line, the greeting and the one formatted print, and the returned integer \<open>n\<close> is the
  argument of that one \<open>printf\<close> and of no other step.
\<close>

theorem main_frame:
  assumes "print_greeting_body lib (lib_state p) = Some (g, x1)"
    and "get_answer_body lib x1 = Some (n, x2)"
  shows "\<exists>q. main lib p = Some (0, q) \<and>
             q = p\<lparr>stdout := stdout q, ops := ops q, lib_state := x2\<rparr> \<and>
             argv q = argv p \<and> environ q = environ p \<and>
             stdout q = stdout p @ ''Starting the main application.\<newline>'' @ g @
                        ''The retrieved answer is: '' @ show_int (sint n) @ ''\<newline>'' \<and>
             ops q = ops p @ [Printf ''Starting the main application.\<newline>'' [], Print_greeting,
                              Get_answer n, Printf ''The retrieved answer is: %d\<newline>'' [n]]"
proof -
  obtain q where q: "main lib p = Some (0, q)"
    "stdout q = stdout p @ ''Starting the main application.\<newline>'' @ g @
                ''The retrieved answer is: '' @ show_int (sint n) @ ''\<newline>''"
    "ops q = ops p @ [Printf ''Starting the main application.\<newline>'' [], Print_greeting,
                      Get_answer n, Printf ''The retrieved answer is: %d\<newline>'' [n]]"
    "lib_state q = x2"
    "q = p\<lparr>stdout := stdout q, ops := ops q, lib_state := lib_state q\<rparr>"
    using assms by (rule main_effect)
  from q(4,5) have frame: "q = p\<lparr>stdout := stdout q, ops := ops q, lib_state := x2\<rparr>"
    by simp
  have "argv q = argv (p\<lparr>stdout := stdout q, ops := ops q, lib_state := x2\<rparr>)"
    using frame by simp
  then have "argv q = argv p" by simp
  moreover have "environ q = environ (p\<lparr>stdout := stdout q, ops := ops q, lib_state := x2\<rparr>)"
    using frame by simp
  then have "environ q = environ p" by simp
  ultimately show ?thesis
    using q(1,2,3) frame by blast
qed

text \<open>A run with a command line and an environment: both are the same afterwards.\<close>

theorem main_frame_witness:
  "print_greeting_body (example_lib ''Hi\<newline>'' 42) (lib_state (start [''main''] [''LANG=C''] ()))
     = Some (''Hi\<newline>'', ())
   \<and> get_answer_body (example_lib ''Hi\<newline>'' 42) () = Some (42, ())
   \<and> (\<exists>q. main (example_lib ''Hi\<newline>'' 42) (start [''main''] [''LANG=C''] ()) = Some (0, q) \<and>
         argv q = [''main''] \<and> environ q = [''LANG=C''] \<and>
         stdout q = ''Starting the main application.\<newline>Hi\<newline>The retrieved answer is: 42\<newline>'')"
proof -
  have a: "print_greeting_body (example_lib ''Hi\<newline>'' 42)
             (lib_state (start [''main''] [''LANG=C''] ())) = Some (''Hi\<newline>'', ())"
    by (simp add: example_lib_def)
  have b: "get_answer_body (example_lib ''Hi\<newline>'' 42) () = Some (42, ())"
    by (simp add: example_lib_def)
  have c: "argv (start [''main''] [''LANG=C''] ()) = [''main'']"
    "environ (start [''main''] [''LANG=C''] ()) = [''LANG=C'']"
    "stdout (start [''main''] [''LANG=C''] ()) = []"
    by (simp_all add: start_def)
  from a b c main_frame [OF a b]
  show ?thesis by (auto simp add: show_int_42)
qed

text \<open>
  C6. \<open>main\<close> returns exactly when the two library calls return: provided
  \<open>print_greeting\<close> returns and, in the state it leaves, \<open>get_answer\<close> returns, \<open>main\<close>
  returns, and it cannot return otherwise. The body has no loop and no recursion:
  \<open>main\<close> is a definition, not a recursive function.
\<close>

theorem main_terminates:
  "(\<exists>rc q. main lib p = Some (rc, q)) \<longleftrightarrow>
   (\<exists>g x1 n x2. print_greeting_body lib (lib_state p) = Some (g, x1) \<and>
                 get_answer_body lib x1 = Some (n, x2))"
proof
  assume "\<exists>rc q. main lib p = Some (rc, q)"
  then show "\<exists>g x1 n x2. print_greeting_body lib (lib_state p) = Some (g, x1) \<and>
                         get_answer_body lib x1 = Some (n, x2)"
    using main_SomeD by blast
next
  assume "\<exists>g x1 n x2. print_greeting_body lib (lib_state p) = Some (g, x1) \<and>
                      get_answer_body lib x1 = Some (n, x2)"
  then show "\<exists>rc q. main lib p = Some (rc, q)"
    by (auto simp add: main_returns)
qed

text \<open>With the example library the calls return, and so does \<open>main\<close>.\<close>

theorem main_terminates_witness:
  "(\<exists>g x1 n x2. print_greeting_body (example_lib ''Hi\<newline>'' 42) (lib_state (start [] [] ()))
                   = Some (g, x1) \<and>
                 get_answer_body (example_lib ''Hi\<newline>'' 42) x1 = Some (n, x2))
   \<and> (\<exists>rc q. main (example_lib ''Hi\<newline>'' 42) (start [] [] ()) = Some (rc, q))"
proof -
  have "\<exists>g x1 n x2. print_greeting_body (example_lib ''Hi\<newline>'' 42) (lib_state (start [] [] ()))
                      = Some (g, x1) \<and>
                    get_answer_body (example_lib ''Hi\<newline>'' 42) x1 = Some (n, x2)"
    by (simp add: example_lib_def)
  then show ?thesis
    using main_terminates [of "example_lib ''Hi\<newline>'' 42" "start [] [] ()"] by blast
qed

text \<open>
  C8. For every integer \<open>n\<close> that \<open>get_answer\<close> returns, negative and zero included, the
  text of the last print is exactly "The retrieved answer is: ", the signed decimal text
  of \<open>n\<close>, and a newline, after everything written before. The value reaches \<open>printf\<close>
  unmodified: the last step is \<open>printf\<close> of the format with \<open>n\<close> itself, and reading the
  printed digits back gives the signed value of \<open>n\<close>.
\<close>

theorem answer_line:
  assumes "print_greeting_body lib (lib_state p) = Some (g, x1)"
    and "get_answer_body lib x1 = Some (n, x2)"
  shows "\<exists>q. main lib p = Some (0, q) \<and>
             stdout q = (stdout p @ ''Starting the main application.\<newline>'' @ g) @
                        ''The retrieved answer is: '' @ show_int (sint n) @ ''\<newline>'' \<and>
             last (ops q) = Printf ''The retrieved answer is: %d\<newline>'' [n] \<and>
             read_int (show_int (sint n)) = sint n"
proof -
  obtain q where q: "main lib p = Some (0, q)"
    "stdout q = stdout p @ ''Starting the main application.\<newline>'' @ g @
                ''The retrieved answer is: '' @ show_int (sint n) @ ''\<newline>''"
    "ops q = ops p @ [Printf ''Starting the main application.\<newline>'' [], Print_greeting,
                      Get_answer n, Printf ''The retrieved answer is: %d\<newline>'' [n]]"
    using assms by (rule main_effect)
  from q(3) have "last (ops q) = Printf ''The retrieved answer is: %d\<newline>'' [n]"
    by simp
  moreover from q(2) have "stdout q = (stdout p @ ''Starting the main application.\<newline>'' @ g) @
                        ''The retrieved answer is: '' @ show_int (sint n) @ ''\<newline>''"
    by simp
  ultimately show ?thesis
    using q(1) read_int_show_int by blast
qed

text \<open>A library whose answer is -7: the last line is "The retrieved answer is: -7".\<close>

theorem answer_line_witness:
  "print_greeting_body (example_lib ''Hi\<newline>'' (- 7)) (lib_state (start [] [] ()))
     = Some (''Hi\<newline>'', ())
   \<and> get_answer_body (example_lib ''Hi\<newline>'' (- 7)) () = Some (- 7, ())
   \<and> (\<exists>q. main (example_lib ''Hi\<newline>'' (- 7)) (start [] [] ()) = Some (0, q) \<and>
         stdout q = ''Starting the main application.\<newline>Hi\<newline>The retrieved answer is: -7\<newline>'')"
proof -
  have a: "print_greeting_body (example_lib ''Hi\<newline>'' (- 7)) (lib_state (start [] [] ()))
             = Some (''Hi\<newline>'', ())"
    by (simp add: example_lib_def)
  have b: "get_answer_body (example_lib ''Hi\<newline>'' (- 7)) () = Some (- 7, ())"
    by (simp add: example_lib_def)
  have c: "stdout (start [] [] ()) = []"
    by (simp add: start_def)
  have d: "show_int (sint (- 7 :: c_int)) = ''-7''"
    by (simp add: show_int_def show_nat.simps digit_def)
  from a b c d answer_line [OF a b]
  show ?thesis by auto
qed

text \<open>
  C9. Take one library and any two behaviours \<open>pg1\<close>, \<open>pg2\<close> of \<open>print_greeting\<close>, with
  outputs \<open>g1\<close> and \<open>g2\<close> (either may be empty). In both runs standard output is the
  line "Starting the main application.", then the output of \<open>print_greeting\<close>, then the
  line "The retrieved answer is: " with the integer that \<open>get_answer\<close> returned in that
  run; and in both histories the first \<open>printf\<close> precedes the call of \<open>print_greeting\<close>
  and the second follows it. The two fixed lines differ between the runs only by the
  integer, when the library answers differently after the two behaviours.
\<close>

theorem fixed_lines_independent_of_greeting:
  assumes "pg1 (lib_state p) = Some (g1, x1)" and "get_answer_body lib x1 = Some (n1, x2)"
    and "pg2 (lib_state p) = Some (g2, y1)" and "get_answer_body lib y1 = Some (n2, y2)"
  shows "\<exists>q1 q2.
           main (lib\<lparr>print_greeting_body := pg1\<rparr>) p = Some (0, q1) \<and>
           main (lib\<lparr>print_greeting_body := pg2\<rparr>) p = Some (0, q2) \<and>
           stdout q1 = stdout p @ ''Starting the main application.\<newline>'' @ g1 @
                       ''The retrieved answer is: '' @ show_int (sint n1) @ ''\<newline>'' \<and>
           stdout q2 = stdout p @ ''Starting the main application.\<newline>'' @ g2 @
                       ''The retrieved answer is: '' @ show_int (sint n2) @ ''\<newline>'' \<and>
           ops q1 = ops p @ [Printf ''Starting the main application.\<newline>'' [], Print_greeting,
                             Get_answer n1, Printf ''The retrieved answer is: %d\<newline>'' [n1]] \<and>
           ops q2 = ops p @ [Printf ''Starting the main application.\<newline>'' [], Print_greeting,
                             Get_answer n2, Printf ''The retrieved answer is: %d\<newline>'' [n2]]"
proof -
  have "print_greeting_body (lib\<lparr>print_greeting_body := pg1\<rparr>) (lib_state p) = Some (g1, x1)"
    and "get_answer_body (lib\<lparr>print_greeting_body := pg1\<rparr>) x1 = Some (n1, x2)"
    using assms(1,2) by simp_all
  then obtain q1 where q1: "main (lib\<lparr>print_greeting_body := pg1\<rparr>) p = Some (0, q1)"
    "stdout q1 = stdout p @ ''Starting the main application.\<newline>'' @ g1 @
                 ''The retrieved answer is: '' @ show_int (sint n1) @ ''\<newline>''"
    "ops q1 = ops p @ [Printf ''Starting the main application.\<newline>'' [], Print_greeting,
                       Get_answer n1, Printf ''The retrieved answer is: %d\<newline>'' [n1]]"
    by (rule main_effect)
  have "print_greeting_body (lib\<lparr>print_greeting_body := pg2\<rparr>) (lib_state p) = Some (g2, y1)"
    and "get_answer_body (lib\<lparr>print_greeting_body := pg2\<rparr>) y1 = Some (n2, y2)"
    using assms(3,4) by simp_all
  then obtain q2 where q2: "main (lib\<lparr>print_greeting_body := pg2\<rparr>) p = Some (0, q2)"
    "stdout q2 = stdout p @ ''Starting the main application.\<newline>'' @ g2 @
                 ''The retrieved answer is: '' @ show_int (sint n2) @ ''\<newline>''"
    "ops q2 = ops p @ [Printf ''Starting the main application.\<newline>'' [], Print_greeting,
                       Get_answer n2, Printf ''The retrieved answer is: %d\<newline>'' [n2]]"
    by (rule main_effect)
  from q1 q2 show ?thesis by blast
qed

text \<open>
  A greeting of one line against no output at all: the fixed lines are the same, in the
  same places.
\<close>

theorem fixed_lines_independent_of_greeting_witness:
  "print_greeting_body (example_lib ''Hello from my_lib!\<newline>'' 42) (lib_state (start [] [] ()))
      = Some (''Hello from my_lib!\<newline>'', ())
   \<and> print_greeting_body (example_lib [] 42) (lib_state (start [] [] ())) = Some ([], ())
   \<and> get_answer_body (example_lib ''Hi\<newline>'' 42) () = Some (42, ())
   \<and> (\<exists>q1 q2.
         main ((example_lib ''Hi\<newline>'' 42)
                 \<lparr>print_greeting_body :=
                    print_greeting_body (example_lib ''Hello from my_lib!\<newline>'' 42)\<rparr>)
           (start [] [] ()) = Some (0, q1) \<and>
         main ((example_lib ''Hi\<newline>'' 42)
                 \<lparr>print_greeting_body := print_greeting_body (example_lib [] 42)\<rparr>)
           (start [] [] ()) = Some (0, q2) \<and>
         stdout q1 = ''Starting the main application.\<newline>Hello from my_lib!\<newline>The retrieved answer is: 42\<newline>'' \<and>
         stdout q2 = ''Starting the main application.\<newline>The retrieved answer is: 42\<newline>'')"
proof -
  have a: "print_greeting_body (example_lib ''Hello from my_lib!\<newline>'' 42)
             (lib_state (start [] [] ())) = Some (''Hello from my_lib!\<newline>'', ())"
    by (simp add: example_lib_def)
  have b: "print_greeting_body (example_lib [] 42) (lib_state (start [] [] ())) = Some ([], ())"
    by (simp add: example_lib_def)
  have c: "get_answer_body (example_lib ''Hi\<newline>'' 42) () = Some (42, ())"
    by (simp add: example_lib_def)
  have d: "stdout (start [] [] ()) = []"
    by (simp add: start_def)
  from a b c d
    fixed_lines_independent_of_greeting
      [where ?pg1.0 = "print_greeting_body (example_lib ''Hello from my_lib!\<newline>'' 42)"
         and ?pg2.0 = "print_greeting_body (example_lib [] 42)"
         and p = "start [] [] ()" and lib = "example_lib ''Hi\<newline>'' 42", OF a c b c]
  show ?thesis by (auto simp add: show_int_42)
qed

end
